theory Spec2Isabelle
  imports Main
begin

section \<open>The agent registry of the refactoring swarm\<close>

text \<open>
  A shallow embedding of \<^verbatim>\<open>src/agent_registry.py\<close>: the class \<^verbatim>\<open>AgentRegistry\<close>
  (a dictionary of named agents and a flag), its methods, and the module-level accessor
  \<^verbatim>\<open>get_registry\<close>. A method takes the object's fields and returns its result (or the
  exception it raises), the fields after the call, and what the call printed and logged,
  in the order it did so.
\<close>

subsection \<open>Strings and dictionaries\<close>

text \<open>
  Strings are byte strings; \<^verbatim>\<open>str.lower\<close> is modelled on the ASCII letters, which
  is where the three agent names live.
\<close>

definition lower_char :: "char \<Rightarrow> char" where
  "lower_char c =
     (let n = (of_char c :: nat) in if 65 \<le> n \<and> n \<le> 90 then char_of (n + 32) else c)"

definition lower :: "string \<Rightarrow> string" where
  "lower s = map lower_char s"

text \<open>
  A Python \<^verbatim>\<open>dict\<close> keeps its keys in insertion order, and \<^verbatim>\<open>list_agents\<close> shows
  that order, so the dictionary is an association list: \<^verbatim>\<open>d[k] = v\<close> replaces the value
  of a key that is present where it stands, and adds a new key at the end.
\<close>

type_synonym 'v dict = "(string \<times> 'v) list"

fun dict_set :: "string \<Rightarrow> 'v \<Rightarrow> 'v dict \<Rightarrow> 'v dict" where
  "dict_set k v [] = [(k, v)]"
| "dict_set k v ((k', v') # d) = (if k' = k then (k, v) # d else (k', v') # dict_set k v d)"

fun dict_get :: "'v dict \<Rightarrow> string \<Rightarrow> 'v option" where
  "dict_get [] k = None"
| "dict_get ((k', v') # d) k = (if k' = k then Some v' else dict_get d k)"

definition dict_keys :: "'v dict \<Rightarrow> string list" where
  "dict_keys d = map fst d"

subsection \<open>Exceptions\<close>

text \<open>
  \<open>ValueError\<close> is what \<^verbatim>\<open>initialize\<close> raises for a missing credential and
  \<open>RuntimeError\<close> what \<^verbatim>\<open>get_agent\<close> raises on a registry that is not initialized. An
  agent constructor may raise anything: \<open>Other_Exception cls msg\<close> stands for any other
  subclass of \<^verbatim>\<open>Exception\<close>, \<open>Non_Exception cls msg\<close> for an exception outside
  \<^verbatim>\<open>Exception\<close> (\<^verbatim>\<open>KeyboardInterrupt\<close>, \<^verbatim>\<open>SystemExit\<close>), which the clause
  \<^verbatim>\<open>except Exception\<close> does not catch. The string is \<^verbatim>\<open>str(e)\<close>.
\<close>

datatype exn =
    ValueError string
  | RuntimeError string
  | Other_Exception string string
  | Non_Exception string string

fun is_Exception :: "exn \<Rightarrow> bool" where
  "is_Exception (Non_Exception cls msg) = False"
| "is_Exception e = True"

fun str :: "exn \<Rightarrow> string" where
  "str (ValueError msg) = msg"
| "str (RuntimeError msg) = msg"
| "str (Other_Exception cls msg) = msg"
| "str (Non_Exception cls msg) = msg"

subsection \<open>What a call prints and logs\<close>

text \<open>
  One constructor for each \<^verbatim>\<open>print\<close> of the module, holding the values its f-string
  interpolates:
  \<^item> \<open>Already_initialized\<close>: ``Agent registry already initialized'';
  \<^item> \<open>Initializing\<close>: ``Initializing Agent Registry...'';
  \<^item> \<open>Loading_auditor\<close>, \<open>Loading_fixer\<close>, \<open>Loading_judge\<close>: ``Loading ... Agent...'';
  \<^item> \<open>Initialized_with n\<close>: ``Agent Registry initialized with n agents'';
  \<^item> \<open>Error_initializing s\<close>: ``Error initializing agent registry: s'';
  \<^item> \<open>Not_found name\<close>: ``Agent 'name' not found in registry'';
  \<^item> \<open>Available names\<close>: ``Available agents: names'';
  \<^item> \<open>Shutting_down\<close>: ``Shutting down Agent Registry...'';
  \<^item> \<open>Shutdown_complete\<close>: ``Agent Registry shutdown complete''.
\<close>

datatype printed =
    Already_initialized
  | Initializing
  | Loading_auditor
  | Loading_fixer
  | Loading_judge
  | Initialized_with nat
  | Error_initializing string
  | Not_found string
  | Available "string list"
  | Shutting_down
  | Shutdown_complete

text \<open>
  Modelled from the spec: \<^verbatim>\<open>log_experiment\<close> and \<^verbatim>\<open>ActionType\<close> of
  \<^verbatim>\<open>src/utils/logger.py\<close>, which the registry imports and which is not among the source
  files. The spec describes a function that accepts a record of a component name, a model
  identifier, an action tag from an enumeration that has at least ``analysis'' and
  ``debug'', and a details mapping with an input and an output description. A call is
  modelled as recording its entry and returning; the two tags are the ones the registry
  uses.
\<close>

datatype ActionType = ANALYSIS | DEBUG

text \<open>
  The three values of \<^verbatim>\<open>output_response\<close>:
  ``Successfully loaded n agents: names'', ``Failed to initialize: s'' and
  ``All agents released and registry cleared''.
\<close>

datatype response =
    Successfully_loaded nat "string list"
  | Failed_to_initialize string
  | Released_and_cleared

record log_entry =
  agent_name :: string
  model_used :: string
  action :: ActionType
  input_prompt :: string
  output_response :: response

datatype event = Print printed | Log log_entry

fun is_Log :: "event \<Rightarrow> bool" where
  "is_Log (Log entry) = True"
| "is_Log (Print out) = False"

subsection \<open>The registry object\<close>

text \<open>
  The fields \<^verbatim>\<open>_agents\<close> and \<^verbatim>\<open>_initialized\<close>. An agent instance is opaque: a value
  of the type \<open>'a\<close>, compared by identity.
\<close>

record 'a AgentRegistry =
  agents :: "'a dict"
  initialized :: bool

text \<open>\<^verbatim>\<open>__init__\<close>\<close>

definition AgentRegistry_init :: "'a AgentRegistry" where
  "AgentRegistry_init = \<lparr>agents = [], initialized = False\<rparr>"

text \<open>
  What one call of \<^verbatim>\<open>initialize\<close> finds outside the object: the value of
  \<^verbatim>\<open>os.getenv("GOOGLE_API_KEY")\<close>, and for each agent class what its constructor does
  when called: raise, or return a new instance.
\<close>

record 'a environ =
  GOOGLE_API_KEY :: "string option"
  AuditorAgent :: "exn + 'a"
  FixerAgent :: "exn + 'a"
  JudgeAgent :: "exn + 'a"

text \<open>\<^verbatim>\<open>not api_key\<close>: the variable is unset, or set to the empty string.\<close>

definition not_key :: "string option \<Rightarrow> bool" where
  "not_key api_key = (case api_key of None \<Rightarrow> True | Some s \<Rightarrow> s = [])"

definition success_entry :: "'a AgentRegistry \<Rightarrow> log_entry" where
  "success_entry self =
     \<lparr>agent_name = ''AgentRegistry'', model_used = ''N/A'', action = ANALYSIS,
      input_prompt = ''Agent registry initialization'',
      output_response =
        Successfully_loaded (length (agents self)) (dict_keys (agents self))\<rparr>"

definition failure_entry :: "exn \<Rightarrow> log_entry" where
  "failure_entry e =
     \<lparr>agent_name = ''AgentRegistry'', model_used = ''N/A'', action = DEBUG,
      input_prompt = ''Agent registry initialization'',
      output_response = Failed_to_initialize (str e)\<rparr>"

definition shutdown_entry :: log_entry where
  "shutdown_entry =
     \<lparr>agent_name = ''AgentRegistry'', model_used = ''N/A'', action = ANALYSIS,
      input_prompt = ''Agent registry shutdown'',
      output_response = Released_and_cleared\<rparr>"

text \<open>
  The body of the \<^verbatim>\<open>try\<close> block of \<^verbatim>\<open>initialize\<close>: the credential check, the three
  constructions in their order, each stored as soon as it has returned, then the flag,
  the summary line and the log entry. A raise leaves the block with the fields as they are
  at that point.
\<close>

definition initialize_try ::
  "'a environ \<Rightarrow> 'a AgentRegistry \<Rightarrow> (exn + unit) \<times> 'a AgentRegistry \<times> event list" where
  "initialize_try env self =
     (if not_key (GOOGLE_API_KEY env)
      then (Inl (ValueError ''GOOGLE_API_KEY not found in environment variables''), self, [])
      else
       (case AuditorAgent env of
          Inl e \<Rightarrow> (Inl e, self, [Print Loading_auditor])
        | Inr a \<Rightarrow>
           (let self1 = self\<lparr>agents := dict_set ''auditor'' a (agents self)\<rparr> in
            case FixerAgent env of
              Inl e \<Rightarrow> (Inl e, self1, [Print Loading_auditor, Print Loading_fixer])
            | Inr f \<Rightarrow>
               (let self2 = self1\<lparr>agents := dict_set ''fixer'' f (agents self1)\<rparr> in
                case JudgeAgent env of
                  Inl e \<Rightarrow>
                    (Inl e, self2,
                     [Print Loading_auditor, Print Loading_fixer, Print Loading_judge])
                | Inr j \<Rightarrow>
                   (let self3 = self2\<lparr>agents := dict_set ''judge'' j (agents self2)\<rparr>;
                        self4 = self3\<lparr>initialized := True\<rparr>
                    in (Inr (), self4,
                        [Print Loading_auditor, Print Loading_fixer, Print Loading_judge,
                         Print (Initialized_with (length (agents self4))),
                         Log (success_entry self4)]))))))"

text \<open>
  \<^verbatim>\<open>initialize\<close>: the skip when the flag is set; otherwise the \<^verbatim>\<open>try\<close> block, and
  the handler, which prints and logs the failure of an \<^verbatim>\<open>Exception\<close> and raises it
  again. The handler touches no field.
\<close>

definition initialize ::
  "'a environ \<Rightarrow> 'a AgentRegistry \<Rightarrow> (exn + unit) \<times> 'a AgentRegistry \<times> event list" where
  "initialize env self =
     (if initialized self then (Inr (), self, [Print Already_initialized])
      else
       (case initialize_try env self of
          (Inr u, self', evs) \<Rightarrow> (Inr (), self', Print Initializing # evs)
        | (Inl e, self', evs) \<Rightarrow>
            if is_Exception e
            then (Inl e, self',
                  Print Initializing # evs @
                  [Print (Error_initializing (str e)), Log (failure_entry e)])
            else (Inl e, self', Print Initializing # evs)))"

text \<open>
  \<^verbatim>\<open>get_agent\<close>: the result is \<open>Inl\<close> the exception raised, \<open>Inr None\<close> for Python's
  \<^verbatim>\<open>None\<close>, \<open>Inr (Some a)\<close> for the instance found.
\<close>

definition get_agent ::
  "string \<Rightarrow> 'a AgentRegistry \<Rightarrow> (exn + 'a option) \<times> 'a AgentRegistry \<times> event list" where
  "get_agent name self =
     (if \<not> initialized self
      then (Inl (RuntimeError ''Agent registry not initialized. Call initialize() first.''),
            self, [])
      else
       (case dict_get (agents self) (lower name) of
          None \<Rightarrow>
            (Inr None, self,
             [Print (Not_found name), Print (Available (dict_keys (agents self)))])
        | Some agent \<Rightarrow> (Inr (Some agent), self, [])))"

definition get_auditor ::
  "'a AgentRegistry \<Rightarrow> (exn + 'a option) \<times> 'a AgentRegistry \<times> event list" where
  "get_auditor self = get_agent ''auditor'' self"

definition get_fixer ::
  "'a AgentRegistry \<Rightarrow> (exn + 'a option) \<times> 'a AgentRegistry \<times> event list" where
  "get_fixer self = get_agent ''fixer'' self"

definition get_judge ::
  "'a AgentRegistry \<Rightarrow> (exn + 'a option) \<times> 'a AgentRegistry \<times> event list" where
  "get_judge self = get_agent ''judge'' self"

definition list_agents :: "'a AgentRegistry \<Rightarrow> string list" where
  "list_agents self = dict_keys (agents self)"

definition is_initialized :: "'a AgentRegistry \<Rightarrow> bool" where
  "is_initialized self = initialized self"

definition shutdown :: "'a AgentRegistry \<Rightarrow> 'a AgentRegistry \<times> event list" where
  "shutdown self =
     (if \<not> initialized self then (self, [])
      else (self\<lparr>agents := [], initialized := False\<rparr>,
            [Print Shutting_down, Print Shutdown_complete, Log shutdown_entry]))"

subsection \<open>Sequences of calls\<close>

text \<open>
  A caller's calls on one registry, each \<^verbatim>\<open>initialize\<close> with what it finds outside;
  a call that raises leaves the object as the raise left it, and the caller goes on.
\<close>

datatype 'a call =
    Initialize "'a environ"
  | Get_agent string
  | Get_auditor
  | Get_fixer
  | Get_judge
  | List_agents
  | Is_initialized
  | Shutdown

datatype 'a returned =
    Raised exn
  | Nothing
  | Agent "'a option"
  | Names "string list"
  | Flag bool

fun lookup_returned :: "(exn + 'a option) \<Rightarrow> 'a returned" where
  "lookup_returned (Inl e) = Raised e"
| "lookup_returned (Inr r) = Agent r"

fun step :: "'a call \<Rightarrow> 'a AgentRegistry \<Rightarrow> 'a returned \<times> 'a AgentRegistry \<times> event list" where
  "step (Initialize env) self =
     (case initialize env self of
        (Inl e, self', evs) \<Rightarrow> (Raised e, self', evs)
      | (Inr u, self', evs) \<Rightarrow> (Nothing, self', evs))"
| "step (Get_agent name) self =
     (case get_agent name self of (r, self', evs) \<Rightarrow> (lookup_returned r, self', evs))"
| "step Get_auditor self =
     (case get_auditor self of (r, self', evs) \<Rightarrow> (lookup_returned r, self', evs))"
| "step Get_fixer self =
     (case get_fixer self of (r, self', evs) \<Rightarrow> (lookup_returned r, self', evs))"
| "step Get_judge self =
     (case get_judge self of (r, self', evs) \<Rightarrow> (lookup_returned r, self', evs))"
| "step List_agents self = (Names (list_agents self), self, [])"
| "step Is_initialized self = (Flag (is_initialized self), self, [])"
| "step Shutdown self = (case shutdown self of (self', evs) \<Rightarrow> (Nothing, self', evs))"

fun run :: "'a AgentRegistry \<Rightarrow> 'a call list \<Rightarrow> 'a AgentRegistry" where
  "run self [] = self"
| "run self (c # cs) = run (fst (snd (step c self))) cs"

subsection \<open>The module's shared instance\<close>

text \<open>
  The objects of the class that exist, each addressed by its position, which is its
  identity; the global \<^verbatim>\<open>_registry_instance\<close> holds \<^verbatim>\<open>None\<close> or the address
  of one.
\<close>

type_synonym addr = nat

record 'a module =
  objects :: "'a AgentRegistry list"
  registry_instance :: "addr option"

text \<open>\<^verbatim>\<open>AgentRegistry()\<close>: a new object, which is none of the existing ones.\<close>

definition new_AgentRegistry :: "'a module \<Rightarrow> addr \<times> 'a module" where
  "new_AgentRegistry m =
     (length (objects m), m\<lparr>objects := objects m @ [AgentRegistry_init]\<rparr>)"

definition get_registry :: "'a module \<Rightarrow> addr \<times> 'a module" where
  "get_registry m =
     (case registry_instance m of
        None \<Rightarrow>
          (case new_AgentRegistry m of
             (r, m') \<Rightarrow> (r, m'\<lparr>registry_instance := Some r\<rparr>))
      | Some r \<Rightarrow> (r, m))"

subsection \<open>Names for stating the properties\<close>

text \<open>
  The two errors the registry raises itself, under the names the specification gives them:
  the \<^verbatim>\<open>RuntimeError\<close> of \<^verbatim>\<open>get_agent\<close> and the \<^verbatim>\<open>ValueError\<close> of
  \<^verbatim>\<open>initialize\<close>, each with the message of the source.
\<close>

definition NotInitializedError :: exn where
  "NotInitializedError = RuntimeError ''Agent registry not initialized. Call initialize() first.''"

definition ConfigurationError :: exn where
  "ConfigurationError = ValueError ''GOOGLE_API_KEY not found in environment variables''"

text \<open>
  The history of a registry, read off the calls alone. A registry is \<open>Cleared\<close> when new,
  \<open>Ready\<close> after an \<^verbatim>\<open>initialize\<close> that constructed all three agents, and has
  \<open>Leftovers\<close> after an \<^verbatim>\<open>initialize\<close> that was not skipped, found the credential,
  constructed the auditor, and met a raise in the fixer's or the judge's constructor. An
  \<^verbatim>\<open>initialize\<close> on a \<open>Ready\<close> registry is skipped; one that finds no credential or
  whose auditor's constructor raises stores nothing; \<^verbatim>\<open>shutdown\<close> clears a \<open>Ready\<close>
  registry and no other; the remaining calls change nothing.
\<close>

datatype phase = Cleared | Leftovers | Ready

fun after_call :: "phase \<Rightarrow> 'a call \<Rightarrow> phase" where
  "after_call Ready (Initialize env) = Ready"
| "after_call p (Initialize env) =
     (if not_key (GOOGLE_API_KEY env) \<or> isl (AuditorAgent env) then p
      else if isl (FixerAgent env) \<or> isl (JudgeAgent env) then Leftovers
      else Ready)"
| "after_call Ready Shutdown = Cleared"
| "after_call p c = p"

fun history :: "phase \<Rightarrow> 'a call list \<Rightarrow> phase" where
  "history p [] = p"
| "history p (c # cs) = history (after_call p c) cs"

text \<open>Where a registry object stands, read off its two fields.\<close>

definition phase_of :: "'a AgentRegistry \<Rightarrow> phase" where
  "phase_of self =
     (if initialized self then Ready else if agents self = [] then Cleared else Leftovers)"

text \<open>
  The names a registry can hold: all three when the flag is set, and otherwise what a
  failed \<^verbatim>\<open>initialize\<close> may have left.
\<close>

definition names_inv :: "'a AgentRegistry \<Rightarrow> bool" where
  "names_inv self =
     (if initialized self then dict_keys (agents self) = [''auditor'', ''fixer'', ''judge'']
      else dict_keys (agents self) \<in> {[], [''auditor''], [''auditor'', ''fixer'']})"

text \<open>
  Concrete surroundings for the examples, with natural numbers as agent instances: one
  where everything succeeds, and variants where the credential is missing or one
  constructor raises.
\<close>

definition example_env :: "nat environ" where
  "example_env =
     \<lparr>GOOGLE_API_KEY = Some ''secret'', AuditorAgent = Inr 1, FixerAgent = Inr 2,
      JudgeAgent = Inr 3\<rparr>"

definition no_credential :: "nat environ" where
  "no_credential = example_env\<lparr>GOOGLE_API_KEY := None\<rparr>"

definition auditor_raises :: "nat environ" where
  "auditor_raises = example_env\<lparr>AuditorAgent := Inl (ValueError ''no model'')\<rparr>"

definition fixer_raises :: "nat environ" where
  "fixer_raises = example_env\<lparr>FixerAgent := Inl (Other_Exception ''ImportError'' ''no fixer'')\<rparr>"

definition judge_raises :: "nat environ" where
  "judge_raises = example_env\<lparr>JudgeAgent := Inl (Non_Exception ''KeyboardInterrupt'' [])\<rparr>"

definition fixer_raises_again :: "nat environ" where
  "fixer_raises_again = fixer_raises\<lparr>AuditorAgent := Inr 4\<rparr>"

text \<open>The module just imported: no registry object yet.\<close>

definition empty_module :: "nat module" where
  "empty_module = \<lparr>objects = [], registry_instance = None\<rparr>"

section \<open>Properties\<close>

subsection \<open>Auxiliary facts\<close>

lemma lower_names:
  "lower ''AUDITOR'' = ''auditor''" "lower ''auditor'' = ''auditor''"
  "lower ''fixer'' = ''fixer''" "lower ''judge'' = ''judge''"
  by code_simp+

lemma dict_keys_dict_set:
  "dict_keys (dict_set k v d) = (if k \<in> set (dict_keys d) then dict_keys d else dict_keys d @ [k])"
  by (induction d) (force simp: dict_keys_def)+

lemma dict_get_dict_set: "dict_get (dict_set k v d) k' = (if k' = k then Some v else dict_get d k')"
  by (induction d) auto

lemma dict_get_None_iff: "dict_get d k = None \<longleftrightarrow> k \<notin> set (dict_keys d)"
  by (induction d) (force simp: dict_keys_def split: if_splits)+

lemma initialize_skip: "initialized self \<Longrightarrow> initialize env self = (Inr (), self, [Print Already_initialized])"
  by (simp add: initialize_def)

lemma initialize_try_flag:
  "initialized (fst (snd (initialize_try env self))) = (initialized self \<or> fst (initialize_try env self) = Inr ())"
  by (simp add: initialize_try_def Let_def split: sum.splits)

lemma initialize_fst_snd:
  "\<not> initialized self \<Longrightarrow> fst (initialize env self) = fst (initialize_try env self)"
  "\<not> initialized self \<Longrightarrow> fst (snd (initialize env self)) = fst (snd (initialize_try env self))"
  by (simp_all add: initialize_def split: prod.splits sum.splits)

lemma initialize_flag:
  "initialized (fst (snd (initialize env self))) = (initialized self \<or> fst (initialize env self) = Inr ())"
  by (cases "initialized self") (simp_all add: initialize_skip initialize_fst_snd initialize_try_flag)

lemma get_agent_uninitialized:
  "\<not> initialized self \<Longrightarrow> get_agent name self = (Inl NotInitializedError, self, [])"
  by (simp add: get_agent_def NotInitializedError_def)

lemma get_agent_initialized:
  "initialized self \<Longrightarrow>
     get_agent name self =
       (Inr (dict_get (agents self) (lower name)), self,
        if dict_get (agents self) (lower name) = None
        then [Print (Not_found name), Print (Available (dict_keys (agents self)))] else [])"
  by (simp add: get_agent_def split: option.splits)

lemma get_agent_self: "fst (snd (get_agent name self)) = self"
  by (simp add: get_agent_def split: option.splits)

lemma shutdown_uninitialized: "\<not> initialized self \<Longrightarrow> shutdown self = (self, [])"
  by (simp add: shutdown_def)

lemma step_not_Initialize:
  "c \<notin> range Initialize \<Longrightarrow> \<not> initialized self \<Longrightarrow> fst (snd (step c self)) = self"
  by (cases c)
    (simp_all add: get_auditor_def get_fixer_def get_judge_def get_agent_uninitialized
      shutdown_uninitialized)

lemma initialize_try_names:
  assumes "names_inv self" and "\<not> initialized self"
  shows "names_inv (fst (snd (initialize_try env self)))"
  using assms
  by (auto simp: names_inv_def initialize_try_def Let_def dict_keys_dict_set
      split: sum.splits)

lemma step_names: "names_inv self \<Longrightarrow> names_inv (fst (snd (step c self)))"
proof (cases c)
  case (Initialize env)
  assume inv: "names_inv self"
  show ?thesis
  proof (cases "initialized self")
    case True
    with inv Initialize show ?thesis by (simp add: initialize_skip)
  next
    case False
    have "fst (snd (step c self)) = fst (snd (initialize_try env self))"
      using Initialize False
      by (simp add: initialize_fst_snd(2) [symmetric] split: prod.splits sum.splits)
    with inv False show ?thesis by (simp add: initialize_try_names)
  qed
next
  case Shutdown
  assume "names_inv self"
  then show ?thesis
    using Shutdown by (auto simp: shutdown_def names_inv_def dict_keys_def split: if_splits)
qed (simp_all add: case_prod_beta get_auditor_def get_fixer_def get_judge_def get_agent_self)

lemma run_names: "names_inv self \<Longrightarrow> names_inv (run self calls)"
  by (induction calls arbitrary: self) (simp_all add: step_names)

lemma init_names: "names_inv AgentRegistry_init"
  by (simp add: names_inv_def AgentRegistry_init_def dict_keys_def)

lemma initialize_try_auditor_raises:
  "\<not> not_key (GOOGLE_API_KEY env) \<Longrightarrow> AuditorAgent env = Inl e \<Longrightarrow>
     fst (initialize_try env self) = Inl e \<and> fst (snd (initialize_try env self)) = self"
  by (simp add: initialize_try_def)

lemma initialize_try_fixer_raises:
  "\<not> not_key (GOOGLE_API_KEY env) \<Longrightarrow> AuditorAgent env = Inr a \<Longrightarrow> FixerAgent env = Inl e \<Longrightarrow>
     fst (initialize_try env self) = Inl e \<and>
     fst (snd (initialize_try env self)) = self\<lparr>agents := dict_set ''auditor'' a (agents self)\<rparr>"
  by (simp add: initialize_try_def)

lemma initialize_try_judge_raises:
  "\<not> not_key (GOOGLE_API_KEY env) \<Longrightarrow> AuditorAgent env = Inr a \<Longrightarrow> FixerAgent env = Inr f \<Longrightarrow>
   JudgeAgent env = Inl e \<Longrightarrow>
     fst (initialize_try env self) = Inl e \<and>
     fst (snd (initialize_try env self)) =
       self\<lparr>agents := dict_set ''fixer'' f (dict_set ''auditor'' a (agents self))\<rparr>"
  by (simp add: initialize_try_def)

lemma initialize_try_success:
  assumes "fst (initialize_try env self) = Inr ()"
  shows "\<exists>a f j. AuditorAgent env = Inr a \<and> FixerAgent env = Inr f \<and> JudgeAgent env = Inr j \<and>
           fst (snd (initialize_try env self)) =
             self\<lparr>agents := dict_set ''judge'' j (dict_set ''fixer'' f
                      (dict_set ''auditor'' a (agents self))),
                  initialized := True\<rparr>"
  using assms
  by (auto simp: initialize_try_def Let_def split: sum.splits if_splits)

lemma names_agents:
  assumes "names_inv self" and "\<not> initialized self" and "agents self \<noteq> []"
  shows "(\<exists>x. agents self = [(''auditor'', x)]) \<or>
         (\<exists>x y. agents self = [(''auditor'', x), (''fixer'', y)])"
  using assms by (auto simp: names_inv_def dict_keys_def map_eq_Cons_conv)

lemma initialize_replaces_all:
  assumes "names_inv self" and "\<not> initialized self"
    and "AuditorAgent env = Inr a" and "FixerAgent env = Inr f" and "JudgeAgent env = Inr j"
    and "fst (snd (initialize_try env self)) =
           self\<lparr>agents := dict_set ''judge'' j (dict_set ''fixer'' f
               (dict_set ''auditor'' a (agents self))), initialized := True\<rparr>"
  shows "agents (fst (snd (initialize_try env self))) =
           [(''auditor'', a), (''fixer'', f), (''judge'', j)]"
proof (cases "agents self = []")
  case True
  with assms(6) show ?thesis by simp
next
  case False
  from names_agents [OF assms(1,2) False] assms(6) show ?thesis by auto
qed

lemma initialize_try_fails_auditor:
  assumes "\<not> not_key (GOOGLE_API_KEY env)" and "AuditorAgent env = Inr a"
    and "fst (initialize_try env self) = Inl e"
  shows "dict_get (agents (fst (snd (initialize_try env self)))) ''auditor'' = Some a"
  using assms
  by (auto simp: initialize_try_def Let_def dict_get_dict_set split: sum.splits)

lemma dict_set_not_Nil: "dict_set k v d \<noteq> []"
  by (cases d) (auto split: if_splits)

lemma initialize_try_phase:
  assumes "\<not> initialized self"
  shows "phase_of (fst (snd (initialize_try env self))) = after_call (phase_of self) (Initialize env)"
  using assms
  by (auto simp: initialize_try_def Let_def phase_of_def dict_set_not_Nil split: sum.splits)

lemma step_phase: "phase_of (fst (snd (step c self))) = after_call (phase_of self) c"
proof (cases c)
  case (Initialize env)
  show ?thesis
  proof (cases "initialized self")
    case True
    with Initialize show ?thesis by (simp add: initialize_skip phase_of_def)
  next
    case False
    have "fst (snd (step c self)) = fst (snd (initialize_try env self))"
      using Initialize False
      by (simp add: initialize_fst_snd(2) [symmetric] split: prod.splits sum.splits)
    with False Initialize show ?thesis by (simp add: initialize_try_phase)
  qed
next
  case Shutdown
  then show ?thesis by (simp add: shutdown_def phase_of_def)
qed (simp_all add: case_prod_beta get_auditor_def get_fixer_def get_judge_def get_agent_self
      phase_of_def)

lemma run_phase: "phase_of (run self calls) = history (phase_of self) calls"
  by (induction calls arbitrary: self) (simp_all add: step_phase)

lemma init_phase: "phase_of AgentRegistry_init = Cleared"
  by (simp add: phase_of_def AgentRegistry_init_def)

lemmas examples =
  example_env_def fixer_raises_def judge_raises_def auditor_raises_def fixer_raises_again_def
  no_credential_def empty_module_def

lemmas evaluate =
  initialize_def initialize_try_def AgentRegistry_init_def not_key_def get_agent_def
  get_auditor_def get_fixer_def get_judge_def shutdown_def list_agents_def
  is_initialized_def dict_keys_def get_registry_def new_AgentRegistry_def
  NotInitializedError_def ConfigurationError_def failure_entry_def Let_def

subsection \<open>C1: the names held while the flag is unset\<close>

text \<open>
  C1, as stated, fails: after an \<^verbatim>\<open>initialize\<close> in which the auditor is constructed and
  the fixer's constructor raises, the flag is unset and the mapping holds the auditor.
\<close>

theorem failed_initialize_leaves_auditor:
  "\<not> initialized (run AgentRegistry_init [Initialize fixer_raises]) \<and>
   agents (run AgentRegistry_init [Initialize fixer_raises]) = [(''auditor'', 1)]"
  by (simp add: fixer_raises_def example_env_def initialize_def initialize_try_def
      AgentRegistry_init_def not_key_def)

text \<open>
  C1, amended. In every state reached from a new registry by a sequence of calls, when the
  flag is unset the mapping is empty exactly when the history of the calls ends
  \<open>Cleared\<close>: no \<^verbatim>\<open>initialize\<close>, made while the flag was unset, has stored an agent
  and then failed since the registry was new or last cleared by \<^verbatim>\<open>shutdown\<close>. It is
  not empty exactly when the history ends with \<open>Leftovers\<close>, and its names are then the
  auditor, or the auditor and the fixer.
\<close>

theorem uninitialized_names_prefix:
  assumes "\<not> initialized (run AgentRegistry_init calls)"
  shows "list_agents (run AgentRegistry_init calls)
           \<in> {[], [''auditor''], [''auditor'', ''fixer'']}
       \<and> (agents (run AgentRegistry_init calls) = [] \<longleftrightarrow> history Cleared calls = Cleared)
       \<and> (agents (run AgentRegistry_init calls) \<noteq> [] \<longleftrightarrow> history Cleared calls = Leftovers)"
proof -
  have "names_inv (run AgentRegistry_init calls)"
    by (rule run_names) (rule init_names)
  with assms have 1: "list_agents (run AgentRegistry_init calls)
      \<in> {[], [''auditor''], [''auditor'', ''fixer'']}"
    by (simp add: names_inv_def list_agents_def)
  have "phase_of (run AgentRegistry_init calls) = history Cleared calls"
    by (simp add: run_phase init_phase)
  with assms have 2: "agents (run AgentRegistry_init calls) = [] \<longleftrightarrow> history Cleared calls = Cleared"
    and 3: "agents (run AgentRegistry_init calls) \<noteq> [] \<longleftrightarrow> history Cleared calls = Leftovers"
    by (auto simp: phase_of_def split: if_splits)
  from 1 2 3 show ?thesis by simp
qed

text \<open>
  Three sequences. A failed construction leaves the auditor through \<^verbatim>\<open>shutdown\<close> and
  a lookup. An \<^verbatim>\<open>initialize\<close> that would fail in the same way but is skipped, on an
  initialized registry, leaves nothing after the \<^verbatim>\<open>shutdown\<close>. Leftovers are gone
  once a later \<^verbatim>\<open>initialize\<close> has succeeded and \<^verbatim>\<open>shutdown\<close> has cleared.
\<close>

theorem uninitialized_names_prefix_witness:
  "\<not> initialized (run AgentRegistry_init [Initialize fixer_raises, Shutdown, Get_auditor])
   \<and> history Cleared [Initialize fixer_raises, Shutdown, Get_auditor] = Leftovers
   \<and> list_agents (run AgentRegistry_init [Initialize fixer_raises, Shutdown, Get_auditor])
       = [''auditor'']
   \<and> \<not> initialized (run AgentRegistry_init
         [Initialize example_env, Initialize fixer_raises, Shutdown])
   \<and> history Cleared [Initialize example_env, Initialize fixer_raises, Shutdown] = Cleared
   \<and> agents (run AgentRegistry_init
         [Initialize example_env, Initialize fixer_raises, Shutdown]) = []
   \<and> \<not> initialized (run AgentRegistry_init
         [Initialize fixer_raises, Initialize example_env, Shutdown, Initialize no_credential])
   \<and> history Cleared
         [Initialize fixer_raises, Initialize example_env, Shutdown, Initialize no_credential]
       = Cleared
   \<and> agents (run AgentRegistry_init
         [Initialize fixer_raises, Initialize example_env, Shutdown, Initialize no_credential])
       = []"
proof -
  have 1: "\<not> initialized
      (run AgentRegistry_init [Initialize fixer_raises, Shutdown, Get_auditor])"
    by (simp add: examples evaluate)
  have 2: "\<not> initialized (run AgentRegistry_init
      [Initialize example_env, Initialize fixer_raises, Shutdown])"
    by (simp add: examples evaluate)
  have 3: "\<not> initialized (run AgentRegistry_init
      [Initialize fixer_raises, Initialize example_env, Shutdown, Initialize no_credential])"
    by (simp add: examples evaluate)
  have h: "history Cleared [Initialize fixer_raises, Shutdown, Get_auditor] = Leftovers"
    "history Cleared [Initialize example_env, Initialize fixer_raises, Shutdown] = Cleared"
    "history Cleared
       [Initialize fixer_raises, Initialize example_env, Shutdown, Initialize no_credential]
     = Cleared"
    by (simp_all add: examples not_key_def)
  have 4: "list_agents (run AgentRegistry_init [Initialize fixer_raises, Shutdown, Get_auditor])
      \<noteq> [''auditor'', ''fixer'']"
    by (simp add: examples evaluate)
  from uninitialized_names_prefix [OF 1] uninitialized_names_prefix [OF 2] uninitialized_names_prefix [OF 3] 1 2 3 4 h show ?thesis
    by (auto simp: list_agents_def dict_keys_def)
qed

subsection \<open>C2: lookups raise exactly when the registry is not initialized\<close>

text \<open>
  C2. After any sequence of calls on a new registry, \<^verbatim>\<open>get_agent\<close>, \<^verbatim>\<open>get_auditor\<close>,
  \<^verbatim>\<open>get_fixer\<close> and \<^verbatim>\<open>get_judge\<close> raise the not-initialized error if and only if the
  flag is unset, and a lookup raises nothing else.
\<close>

theorem lookup_raises_iff_uninitialized:
  "(fst (get_agent name (run AgentRegistry_init calls)) = Inl NotInitializedError
      \<longleftrightarrow> \<not> initialized (run AgentRegistry_init calls)) \<and>
   (fst (get_auditor (run AgentRegistry_init calls)) = Inl NotInitializedError
      \<longleftrightarrow> \<not> initialized (run AgentRegistry_init calls)) \<and>
   (fst (get_fixer (run AgentRegistry_init calls)) = Inl NotInitializedError
      \<longleftrightarrow> \<not> initialized (run AgentRegistry_init calls)) \<and>
   (fst (get_judge (run AgentRegistry_init calls)) = Inl NotInitializedError
      \<longleftrightarrow> \<not> initialized (run AgentRegistry_init calls)) \<and>
   ((\<exists>e. fst (step (Get_agent name) (run AgentRegistry_init calls)) = Raised e)
      \<longleftrightarrow> \<not> initialized (run AgentRegistry_init calls))"
proof (cases "initialized (run AgentRegistry_init calls)")
  case True
  then show ?thesis
    by (simp add: get_auditor_def get_fixer_def get_judge_def get_agent_initialized)
next
  case False
  then show ?thesis
    by (simp add: get_auditor_def get_fixer_def get_judge_def get_agent_uninitialized)
qed

text \<open>
  Both sides at concrete sequences: after a shutdown the lookup raises, after a
  successful \<^verbatim>\<open>initialize\<close> it does not.
\<close>

theorem lookup_raises_iff_uninitialized_witness:
  "\<not> initialized (run AgentRegistry_init [Initialize example_env, Shutdown])
   \<and> fst (get_fixer (run AgentRegistry_init [Initialize example_env, Shutdown]))
       = Inl NotInitializedError
   \<and> initialized (run AgentRegistry_init [Initialize no_credential, Initialize example_env])
   \<and> fst (get_fixer (run AgentRegistry_init [Initialize no_credential, Initialize example_env]))
       \<noteq> Inl NotInitializedError"
proof -
  have 1: "\<not> initialized (run AgentRegistry_init [Initialize example_env, Shutdown])"
    by (simp add: examples evaluate)
  have 2: "initialized
      (run AgentRegistry_init [Initialize no_credential, Initialize example_env])"
    by (simp add: examples evaluate)
  from 1 2 lookup_raises_iff_uninitialized [of "[]" "[Initialize example_env, Shutdown]"]
    lookup_raises_iff_uninitialized [of "[]" "[Initialize no_credential, Initialize example_env]"]
  show ?thesis by simp
qed

subsection \<open>C3: a constructor that raises\<close>

text \<open>
  C3. On a registry whose flag is unset and with the credential present, when the
  auditor's, the fixer's or the judge's constructor raises, \<^verbatim>\<open>initialize\<close> raises that
  same exception, the flag stays unset, and the agents constructed before stay stored
  under their names: nothing is rolled back.
\<close>

theorem initialize_construction_raises:
  assumes "\<not> initialized self" and "\<not> not_key (GOOGLE_API_KEY env)"
  shows "(AuditorAgent env = Inl e \<longrightarrow>
            fst (initialize env self) = Inl e \<and>
            fst (snd (initialize env self)) = self)
       \<and> (AuditorAgent env = Inr a \<and> FixerAgent env = Inl e \<longrightarrow>
            fst (initialize env self) = Inl e \<and>
            fst (snd (initialize env self)) =
              self\<lparr>agents := dict_set ''auditor'' a (agents self)\<rparr>)
       \<and> (AuditorAgent env = Inr a \<and> FixerAgent env = Inr f \<and> JudgeAgent env = Inl e \<longrightarrow>
            fst (initialize env self) = Inl e \<and>
            fst (snd (initialize env self)) =
              self\<lparr>agents := dict_set ''fixer'' f (dict_set ''auditor'' a (agents self))\<rparr>)
       \<and> (fst (initialize env self) \<noteq> Inr () \<longrightarrow>
            \<not> is_initialized (fst (snd (initialize env self))))"
  using assms
  by (simp add: initialize_fst_snd initialize_try_auditor_raises initialize_try_fixer_raises
      initialize_try_judge_raises initialize_try_flag is_initialized_def)

text \<open>
  One example for each of the three constructors.
\<close>

theorem initialize_construction_raises_witness:
  "\<not> initialized (AgentRegistry_init :: nat AgentRegistry)
   \<and> \<not> not_key (GOOGLE_API_KEY auditor_raises)
   \<and> AuditorAgent auditor_raises = Inl (ValueError ''no model'')
   \<and> fst (initialize auditor_raises AgentRegistry_init) = Inl (ValueError ''no model'')
   \<and> fst (snd (initialize auditor_raises AgentRegistry_init)) = AgentRegistry_init
   \<and> \<not> not_key (GOOGLE_API_KEY fixer_raises)
   \<and> AuditorAgent fixer_raises = Inr 1
   \<and> FixerAgent fixer_raises = Inl (Other_Exception ''ImportError'' ''no fixer'')
   \<and> fst (initialize fixer_raises AgentRegistry_init)
       = Inl (Other_Exception ''ImportError'' ''no fixer'')
   \<and> fst (snd (initialize fixer_raises AgentRegistry_init))
       = \<lparr>agents = [(''auditor'', 1)], initialized = False\<rparr>
   \<and> \<not> not_key (GOOGLE_API_KEY judge_raises)
   \<and> AuditorAgent judge_raises = Inr 1 \<and> FixerAgent judge_raises = Inr 2
   \<and> JudgeAgent judge_raises = Inl (Non_Exception ''KeyboardInterrupt'' [])
   \<and> fst (initialize judge_raises AgentRegistry_init)
       = Inl (Non_Exception ''KeyboardInterrupt'' [])
   \<and> fst (snd (initialize judge_raises AgentRegistry_init))
       = \<lparr>agents = [(''auditor'', 1), (''fixer'', 2)], initialized = False\<rparr>
   \<and> \<not> is_initialized (fst (snd (initialize judge_raises AgentRegistry_init)))"
proof -
  have un: "\<not> initialized (AgentRegistry_init :: nat AgentRegistry)"
    by (simp add: AgentRegistry_init_def)
  have k: "\<not> not_key (GOOGLE_API_KEY auditor_raises)" "\<not> not_key (GOOGLE_API_KEY fixer_raises)"
    "\<not> not_key (GOOGLE_API_KEY judge_raises)"
    by (simp_all add: examples not_key_def)
  have c: "AuditorAgent auditor_raises = Inl (ValueError ''no model'')"
    "AuditorAgent fixer_raises = Inr 1"
    "FixerAgent fixer_raises = Inl (Other_Exception ''ImportError'' ''no fixer'')"
    "AuditorAgent judge_raises = Inr 1" "FixerAgent judge_raises = Inr 2"
    "JudgeAgent judge_raises = Inl (Non_Exception ''KeyboardInterrupt'' [])"
    by (simp_all add: examples)
  from un k c
    initialize_construction_raises [OF un k(1), of "ValueError ''no model''" 0 0]
    initialize_construction_raises [OF un k(2), of "Other_Exception ''ImportError'' ''no fixer''" 1 0]
    initialize_construction_raises [OF un k(3), of "Non_Exception ''KeyboardInterrupt'' []" 1 2]
  show ?thesis by (simp add: AgentRegistry_init_def is_initialized_def)
qed

subsection \<open>C4: the missing credential\<close>

text \<open>
  C4. On a registry whose flag is unset, with the credential variable absent,
  \<^verbatim>\<open>initialize\<close> raises the configuration error, the \<^verbatim>\<open>ValueError\<close> with the
  message of the source, and leaves the fields as they were. It logs exactly one entry,
  the failure: action \<^verbatim>\<open>DEBUG\<close>, with ``Failed to initialize:'' and that message as
  the response. It does the same whatever the constructors would have done: none is
  called.
\<close>

theorem initialize_missing_credential:
  assumes "\<not> initialized self" and "GOOGLE_API_KEY env = None"
  shows "initialize env self =
           (Inl ConfigurationError, self,
            [Print Initializing, Print (Error_initializing (str ConfigurationError)),
             Log (failure_entry ConfigurationError)])
       \<and> \<not> is_initialized (fst (snd (initialize env self)))
       \<and> filter is_Log (snd (snd (initialize env self))) = [Log (failure_entry ConfigurationError)]
       \<and> initialize (env\<lparr>AuditorAgent := x, FixerAgent := y, JudgeAgent := z\<rparr>) self
           = initialize env self
       \<and> fst (initialize env self)
           = Inl (ValueError ''GOOGLE_API_KEY not found in environment variables'')
       \<and> snd (snd (initialize env self)) =
           [Print Initializing,
            Print (Error_initializing ''GOOGLE_API_KEY not found in environment variables''),
            Log \<lparr>agent_name = ''AgentRegistry'', model_used = ''N/A'', action = DEBUG,
                 input_prompt = ''Agent registry initialization'',
                 output_response =
                   Failed_to_initialize
                     ''GOOGLE_API_KEY not found in environment variables''\<rparr>]"
  using assms
  by (simp add: initialize_def initialize_try_def not_key_def ConfigurationError_def
      is_initialized_def failure_entry_def)

text \<open>
  The example surroundings without the credential, on a new registry: the one entry
  logged is the failure entry.
\<close>

theorem initialize_missing_credential_witness:
  "\<not> initialized (AgentRegistry_init :: nat AgentRegistry)
   \<and> GOOGLE_API_KEY no_credential = None
   \<and> fst (initialize no_credential AgentRegistry_init) = Inl ConfigurationError
   \<and> fst (snd (initialize no_credential AgentRegistry_init)) = AgentRegistry_init
   \<and> \<not> is_initialized (fst (snd (initialize no_credential AgentRegistry_init)))
   \<and> length (filter is_Log (snd (snd (initialize no_credential AgentRegistry_init)))) = 1
   \<and> filter is_Log (snd (snd (initialize no_credential AgentRegistry_init))) =
       [Log \<lparr>agent_name = ''AgentRegistry'', model_used = ''N/A'', action = DEBUG,
             input_prompt = ''Agent registry initialization'',
             output_response =
               Failed_to_initialize ''GOOGLE_API_KEY not found in environment variables''\<rparr>]"
proof -
  have un: "\<not> initialized (AgentRegistry_init :: nat AgentRegistry)"
    by (simp add: AgentRegistry_init_def)
  have k: "GOOGLE_API_KEY no_credential = None"
    by (simp add: examples)
  note t = initialize_missing_credential [OF un k, of "Inr 1" "Inr 2" "Inr 3"]
  from t have r: "fst (initialize no_credential AgentRegistry_init) = Inl ConfigurationError"
    "fst (snd (initialize no_credential AgentRegistry_init)) = AgentRegistry_init"
    by simp_all
  from t have i: "\<not> is_initialized (fst (snd (initialize no_credential AgentRegistry_init)))"
    by blast
  from t have evs: "snd (snd (initialize no_credential AgentRegistry_init)) =
      [Print Initializing,
       Print (Error_initializing ''GOOGLE_API_KEY not found in environment variables''),
       Log \<lparr>agent_name = ''AgentRegistry'', model_used = ''N/A'', action = DEBUG,
            input_prompt = ''Agent registry initialization'',
            output_response =
              Failed_to_initialize ''GOOGLE_API_KEY not found in environment variables''\<rparr>]"
    by blast
  from un k r i show ?thesis
    unfolding evs by simp
qed

subsection \<open>C5: lookup by name\<close>

text \<open>
  C5. On an initialized registry \<^verbatim>\<open>get_agent\<close> returns what is bound to the lowercased
  name, so names that agree up to case give the same result, \<^verbatim>\<open>AUDITOR\<close> and
  \<^verbatim>\<open>auditor\<close> among them; a name whose lowercase is not bound gives \<^verbatim>\<open>None\<close>, no
  exception, after the two diagnostic lines, the second listing the bound names.
\<close>

theorem get_agent_case_insensitive:
  assumes "initialized self"
  shows "fst (get_agent name self) = Inr (dict_get (agents self) (lower name))
       \<and> fst (get_agent ''AUDITOR'' self) = Inr (dict_get (agents self) ''auditor'')
       \<and> fst (get_agent ''AUDITOR'' self) = fst (get_agent ''auditor'' self)
       \<and> (lower name = lower name' \<longrightarrow> fst (get_agent name self) = fst (get_agent name' self))
       \<and> (lower name \<notin> set (list_agents self) \<longrightarrow>
            get_agent name self =
              (Inr None, self, [Print (Not_found name), Print (Available (list_agents self))]))"
  using assms
  by (simp add: get_agent_initialized lower_names list_agents_def dict_get_None_iff)

text \<open>
  Lookups on the registry that a successful \<^verbatim>\<open>initialize\<close> produces.
\<close>

theorem get_agent_case_insensitive_witness:
  "initialized (run AgentRegistry_init [Initialize example_env])
   \<and> fst (get_agent ''Judge'' (run AgentRegistry_init [Initialize example_env]))
       = Inr (Some 3)
   \<and> lower ''Judge'' = lower ''JUDGE''
   \<and> fst (get_agent ''JUDGE'' (run AgentRegistry_init [Initialize example_env]))
       = Inr (Some 3)
   \<and> fst (get_agent ''AUDITOR'' (run AgentRegistry_init [Initialize example_env]))
       = Inr (Some 1)
   \<and> fst (get_agent ''auditor'' (run AgentRegistry_init [Initialize example_env]))
       = Inr (Some 1)
   \<and> lower ''nonexistent'' \<notin> set (list_agents (run AgentRegistry_init [Initialize example_env]))
   \<and> get_agent ''nonexistent'' (run AgentRegistry_init [Initialize example_env])
       = (Inr None, run AgentRegistry_init [Initialize example_env],
          [Print (Not_found ''nonexistent''),
           Print (Available [''auditor'', ''fixer'', ''judge''])])"
proof -
  have r: "run AgentRegistry_init [Initialize example_env] =
      \<lparr>agents = [(''auditor'', 1), (''fixer'', 2), (''judge'', 3)], initialized = True\<rparr>"
    by (simp add: examples evaluate)
  have i: "initialized (run AgentRegistry_init [Initialize example_env])"
    unfolding r by simp
  have l: "lower ''Judge'' = ''judge''" "lower ''nonexistent'' = ''nonexistent''"
    "lower ''JUDGE'' = ''judge''"
    by code_simp+
  from i get_agent_case_insensitive [OF i, of "''Judge''" "''JUDGE''"] get_agent_case_insensitive [OF i, of "''nonexistent''" "[]"]
  show ?thesis
    unfolding r by (auto simp: l list_agents_def dict_keys_def)
qed

subsection \<open>C6: the names after a successful initialize\<close>

text \<open>
  C6. When \<^verbatim>\<open>initialize\<close> returns normally on a new registry, \<^verbatim>\<open>list_agents\<close>
  is auditor, fixer, judge, in this order.
\<close>

theorem list_agents_after_initialize:
  assumes "fst (initialize env AgentRegistry_init) = Inr ()"
  shows "list_agents (fst (snd (initialize env AgentRegistry_init)))
           = [''auditor'', ''fixer'', ''judge'']"
proof -
  have un: "\<not> initialized (AgentRegistry_init :: 'a AgentRegistry)"
    by (simp add: AgentRegistry_init_def)
  with assms have "fst (initialize_try env AgentRegistry_init) = Inr ()"
    by (simp add: initialize_fst_snd)
  then obtain a f j where
    "fst (snd (initialize_try env AgentRegistry_init)) =
       AgentRegistry_init\<lparr>agents := dict_set ''judge'' j (dict_set ''fixer'' f
           (dict_set ''auditor'' a (agents AgentRegistry_init))), initialized := True\<rparr>"
    using initialize_try_success by blast
  with un show ?thesis
    by (simp add: initialize_fst_snd list_agents_def dict_keys_def AgentRegistry_init_def)
qed

text \<open>
  The example surroundings, where all three constructors return.
\<close>

theorem list_agents_after_initialize_witness:
  "fst (initialize example_env AgentRegistry_init) = Inr ()
   \<and> list_agents (fst (snd (initialize example_env AgentRegistry_init)))
       = [''auditor'', ''fixer'', ''judge'']"
proof -
  have s: "fst (initialize example_env AgentRegistry_init) = Inr ()"
    by (simp add: examples evaluate)
  from s list_agents_after_initialize [OF s] show ?thesis by simp
qed

subsection \<open>C7: shutdown\<close>

text \<open>
  C7. \<^verbatim>\<open>shutdown\<close> on a registry whose flag is unset changes nothing and emits
  nothing; on an initialized registry it empties the mapping, unsets the flag and logs
  one entry; in both cases the flag is unset afterwards and a second \<^verbatim>\<open>shutdown\<close>
  changes and emits nothing.
\<close>

theorem shutdown_clears_or_skips:
  "(\<not> initialized self \<longrightarrow> shutdown self = (self, []))
   \<and> (initialized self \<longrightarrow>
        shutdown self =
          (self\<lparr>agents := [], initialized := False\<rparr>,
           [Print Shutting_down, Print Shutdown_complete, Log shutdown_entry])
        \<and> list_agents (fst (shutdown self)) = []
        \<and> length (filter is_Log (snd (shutdown self))) = 1)
   \<and> \<not> is_initialized (fst (shutdown self))
   \<and> shutdown (fst (shutdown self)) = (fst (shutdown self), [])"
  by (simp add: shutdown_def is_initialized_def list_agents_def dict_keys_def)

text \<open>
  A new registry, and an initialized one shut down twice.
\<close>

theorem shutdown_clears_or_skips_witness:
  "\<not> initialized (AgentRegistry_init :: nat AgentRegistry)
   \<and> shutdown (AgentRegistry_init :: nat AgentRegistry) = (AgentRegistry_init, [])
   \<and> initialized (run AgentRegistry_init [Initialize example_env])
   \<and> shutdown (run AgentRegistry_init [Initialize example_env])
       = (AgentRegistry_init,
          [Print Shutting_down, Print Shutdown_complete, Log shutdown_entry])
   \<and> shutdown (fst (shutdown (run AgentRegistry_init [Initialize example_env])))
       = (AgentRegistry_init, [])"
proof -
  have un: "\<not> initialized (AgentRegistry_init :: nat AgentRegistry)"
    by (simp add: AgentRegistry_init_def)
  have r: "run AgentRegistry_init [Initialize example_env] =
      \<lparr>agents = [(''auditor'', 1), (''fixer'', 2), (''judge'', 3)], initialized = True\<rparr>"
    by (simp add: examples evaluate)
  have i: "initialized (run AgentRegistry_init [Initialize example_env])"
    unfolding r by simp
  from un i shutdown_clears_or_skips [of "AgentRegistry_init :: nat AgentRegistry"]
    shutdown_clears_or_skips [of "run AgentRegistry_init [Initialize example_env]"]
  show ?thesis unfolding r by (simp add: AgentRegistry_init_def)
qed

subsection \<open>C8: initialize twice\<close>

text \<open>
  C8. After an \<^verbatim>\<open>initialize\<close> that returned normally, a second \<^verbatim>\<open>initialize\<close>,
  whatever it finds outside, returns normally, prints the warning and nothing else, and
  leaves the fields as they are.
\<close>

theorem initialize_twice_skips:
  assumes "fst (initialize env self) = Inr ()"
  shows "initialize env' (fst (snd (initialize env self)))
           = (Inr (), fst (snd (initialize env self)), [Print Already_initialized])"
proof -
  have "initialized (fst (snd (initialize env self)))"
    using assms by (simp add: initialize_flag)
  then show ?thesis by (rule initialize_skip)
qed

text \<open>
  The second call made where the fixer's constructor would raise: it is not called.
\<close>

theorem initialize_twice_skips_witness:
  "fst (initialize example_env AgentRegistry_init) = Inr ()
   \<and> initialize fixer_raises (fst (snd (initialize example_env AgentRegistry_init)))
       = (Inr (),
          \<lparr>agents = [(''auditor'', 1), (''fixer'', 2), (''judge'', 3)], initialized = True\<rparr>,
          [Print Already_initialized])"
proof -
  have s: "fst (initialize example_env AgentRegistry_init) = Inr ()"
    by (simp add: examples evaluate)
  have r: "fst (snd (initialize example_env AgentRegistry_init)) =
      \<lparr>agents = [(''auditor'', 1), (''fixer'', 2), (''judge'', 3)], initialized = True\<rparr>"
    by (simp add: examples evaluate)
  from s initialize_twice_skips [OF s, of fixer_raises] show ?thesis by (simp add: r)
qed

subsection \<open>C9: the shared registry\<close>

text \<open>
  C9. \<^verbatim>\<open>get_registry\<close> returns the shared instance when there is one and leaves the
  module as it is; otherwise it makes a new object, none of the existing ones, with no
  agents and the flag unset, and stores it as the shared instance. It changes no
  existing object, so it initializes nothing. A second call returns the same address,
  also from any later state of the module in which the global is the same.
\<close>

theorem get_registry_shared:
  "(registry_instance m = Some r \<longrightarrow> get_registry m = (r, m))
   \<and> (registry_instance m = None \<longrightarrow>
        fst (get_registry m) = length (objects m) \<and>
        snd (get_registry m) =
          \<lparr>objects = objects m @ [AgentRegistry_init],
           registry_instance = Some (fst (get_registry m))\<rparr> \<and>
        objects (snd (get_registry m)) ! fst (get_registry m) = AgentRegistry_init \<and>
        \<not> is_initialized (objects (snd (get_registry m)) ! fst (get_registry m)))
   \<and> take (length (objects m)) (objects (snd (get_registry m))) = objects m
   \<and> get_registry (snd (get_registry m)) = (fst (get_registry m), snd (get_registry m))
   \<and> (registry_instance m' = registry_instance (snd (get_registry m)) \<longrightarrow>
        fst (get_registry m') = fst (get_registry m))"
  by (cases "registry_instance m")
    (auto simp: get_registry_def new_AgentRegistry_def is_initialized_def
      AgentRegistry_init_def)

text \<open>
  From the module with no object yet: the first call makes object 0, later calls return
  it, also after it has been initialized.
\<close>

theorem get_registry_shared_witness:
  "registry_instance empty_module = None
   \<and> get_registry empty_module
       = (0, \<lparr>objects = [AgentRegistry_init], registry_instance = Some 0\<rparr>)
   \<and> registry_instance (snd (get_registry empty_module)) = Some 0
   \<and> get_registry (snd (get_registry empty_module)) = (0, snd (get_registry empty_module))
   \<and> fst (get_registry
        \<lparr>objects = [run AgentRegistry_init [Initialize example_env]],
         registry_instance = Some 0\<rparr>) = 0"
proof -
  have n: "registry_instance empty_module = None"
    by (simp add: examples)
  have g: "fst (get_registry empty_module) = 0"
    by (simp add: examples evaluate)
  have s: "registry_instance (snd (get_registry empty_module)) = Some 0"
    by (simp add: examples evaluate)
  have m: "registry_instance
      \<lparr>objects = [run AgentRegistry_init [Initialize example_env]], registry_instance = Some 0\<rparr>
      = registry_instance (snd (get_registry empty_module))"
    by (simp add: s)
  from n g s m
    get_registry_shared [of empty_module 0
      "\<lparr>objects = [run AgentRegistry_init [Initialize example_env]],
        registry_instance = Some 0\<rparr>"]
    get_registry_shared [of "snd (get_registry empty_module)" 0 empty_module]
  show ?thesis by (simp add: examples prod_eq_iff)
qed

subsection \<open>C10: agents left by a failed initialize\<close>

text \<open>
  C10, as stated, fails in its last part: it is not only a successful \<^verbatim>\<open>initialize\<close>
  that replaces what a failed one left. Here a second \<^verbatim>\<open>initialize\<close> raises as well, and
  has replaced the auditor of the first by its own.
\<close>

theorem failed_initialize_replaces_leftover:
  "fst (initialize fixer_raises_again (run AgentRegistry_init [Initialize fixer_raises]))
     = Inl (Other_Exception ''ImportError'' ''no fixer'') \<and>
   agents (run AgentRegistry_init [Initialize fixer_raises]) = [(''auditor'', 1)] \<and>
   agents (fst (snd (initialize fixer_raises_again
       (run AgentRegistry_init [Initialize fixer_raises])))) = [(''auditor'', 4)]"
  by (simp add: fixer_raises_again_def fixer_raises_def example_env_def initialize_def
      initialize_try_def AgentRegistry_init_def not_key_def)

text \<open>
  C10, amended. In a reachable state with the flag unset and the mapping not empty,
  \<^verbatim>\<open>shutdown\<close> changes nothing and emits nothing, and \<^verbatim>\<open>list_agents\<close> shows the
  same names after it, the auditor or the auditor and the fixer; no call other than
  \<^verbatim>\<open>initialize\<close> changes the state; an \<^verbatim>\<open>initialize\<close> that returns normally
  leaves exactly the three agents it constructed; and one that raises after its auditor
  was constructed leaves that new auditor under the name.
\<close>

theorem leftover_agents_survive_shutdown:
  assumes "self = run AgentRegistry_init calls"
    and "\<not> initialized self" and "agents self \<noteq> []"
  shows "shutdown self = (self, [])
       \<and> list_agents (fst (shutdown self)) = list_agents self
       \<and> list_agents self \<in> {[''auditor''], [''auditor'', ''fixer'']}
       \<and> (c \<notin> range Initialize \<longrightarrow> fst (snd (step c self)) = self)
       \<and> (fst (initialize env self) = Inr () \<longrightarrow>
            (\<exists>a f j. AuditorAgent env = Inr a \<and> FixerAgent env = Inr f \<and>
               JudgeAgent env = Inr j \<and>
               agents (fst (snd (initialize env self))) =
                 [(''auditor'', a), (''fixer'', f), (''judge'', j)]))
       \<and> (\<not> not_key (GOOGLE_API_KEY env) \<and> AuditorAgent env = Inr a \<and>
          fst (initialize env self) = Inl e \<longrightarrow>
            dict_get (agents (fst (snd (initialize env self)))) ''auditor'' = Some a)"
proof -
  have inv: "names_inv self"
    unfolding assms(1) by (rule run_names) (rule init_names)
  have 1: "shutdown self = (self, [])"
    using assms(2) by (rule shutdown_uninitialized)
  have 2: "list_agents self \<in> {[''auditor''], [''auditor'', ''fixer'']}"
    using names_agents [OF inv assms(2,3)] by (auto simp: list_agents_def dict_keys_def)
  have 3: "c \<notin> range Initialize \<longrightarrow> fst (snd (step c self)) = self"
    using assms(2) by (simp add: step_not_Initialize)
  have 4: "fst (initialize env self) = Inr () \<longrightarrow>
            (\<exists>a f j. AuditorAgent env = Inr a \<and> FixerAgent env = Inr f \<and>
               JudgeAgent env = Inr j \<and>
               agents (fst (snd (initialize env self))) =
                 [(''auditor'', a), (''fixer'', f), (''judge'', j)])"
  proof
    assume "fst (initialize env self) = Inr ()"
    with assms(2) have "fst (initialize_try env self) = Inr ()"
      by (simp add: initialize_fst_snd)
    then obtain a f j where *: "AuditorAgent env = Inr a" "FixerAgent env = Inr f"
      "JudgeAgent env = Inr j"
      "fst (snd (initialize_try env self)) =
         self\<lparr>agents := dict_set ''judge'' j (dict_set ''fixer'' f
             (dict_set ''auditor'' a (agents self))), initialized := True\<rparr>"
      using initialize_try_success by blast
    have "agents (fst (snd (initialize_try env self))) =
        [(''auditor'', a), (''fixer'', f), (''judge'', j)]"
      using inv assms(2) * by (rule initialize_replaces_all)
    with * assms(2) show "\<exists>a f j. AuditorAgent env = Inr a \<and> FixerAgent env = Inr f \<and>
        JudgeAgent env = Inr j \<and>
        agents (fst (snd (initialize env self))) =
          [(''auditor'', a), (''fixer'', f), (''judge'', j)]"
      by (simp add: initialize_fst_snd)
  qed
  have 5: "\<not> not_key (GOOGLE_API_KEY env) \<and> AuditorAgent env = Inr a \<and>
      fst (initialize env self) = Inl e \<longrightarrow>
        dict_get (agents (fst (snd (initialize env self)))) ''auditor'' = Some a"
    using assms(2) by (simp add: initialize_fst_snd initialize_try_fails_auditor)
  from 1 2 3 4 5 show ?thesis by simp
qed

text \<open>
  The state left when the judge's constructor raised, followed by each kind of call.
\<close>

theorem leftover_agents_survive_shutdown_witness:
  "\<not> initialized (run AgentRegistry_init [Initialize judge_raises])
   \<and> agents (run AgentRegistry_init [Initialize judge_raises])
       = [(''auditor'', 1), (''fixer'', 2)]
   \<and> shutdown (run AgentRegistry_init [Initialize judge_raises])
       = (run AgentRegistry_init [Initialize judge_raises], [])
   \<and> list_agents (fst (shutdown (run AgentRegistry_init [Initialize judge_raises])))
       = [''auditor'', ''fixer'']
   \<and> fst (snd (step (Get_agent ''fixer'') (run AgentRegistry_init [Initialize judge_raises])))
       = run AgentRegistry_init [Initialize judge_raises]
   \<and> fst (initialize example_env (run AgentRegistry_init [Initialize judge_raises])) = Inr ()
   \<and> fst (initialize fixer_raises_again (run AgentRegistry_init [Initialize judge_raises]))
       = Inl (Other_Exception ''ImportError'' ''no fixer'')
   \<and> dict_get (agents (fst (snd (initialize fixer_raises_again
        (run AgentRegistry_init [Initialize judge_raises]))))) ''auditor'' = Some 4"
proof -
  have r: "run AgentRegistry_init [Initialize judge_raises] =
      \<lparr>agents = [(''auditor'', 1), (''fixer'', 2)], initialized = False\<rparr>"
    by (simp add: examples evaluate)
  have u: "\<not> initialized (run AgentRegistry_init [Initialize judge_raises])"
    and a: "agents (run AgentRegistry_init [Initialize judge_raises]) \<noteq> []"
    unfolding r by simp_all
  have c: "Get_agent ''fixer'' \<notin> range (Initialize :: nat environ \<Rightarrow> nat call)"
    by auto
  have s: "fst (initialize example_env (run AgentRegistry_init [Initialize judge_raises]))
      = Inr ()"
    unfolding r by (simp add: examples evaluate)
  have f: "\<not> not_key (GOOGLE_API_KEY fixer_raises_again)"
    "AuditorAgent fixer_raises_again = Inr 4"
    "fst (initialize fixer_raises_again (run AgentRegistry_init [Initialize judge_raises]))
      = Inl (Other_Exception ''ImportError'' ''no fixer'')"
    unfolding r by (simp_all add: examples evaluate)
  from u s f c
    leftover_agents_survive_shutdown [OF refl u a, of "Get_agent ''fixer''" example_env 4
      "Other_Exception ''ImportError'' ''no fixer''"]
    leftover_agents_survive_shutdown [OF refl u a, of "Get_agent ''fixer''" fixer_raises_again 4
      "Other_Exception ''ImportError'' ''no fixer''"]
  show ?thesis unfolding r by (simp add: list_agents_def dict_keys_def)
qed

end
